theory Spec2Isabelle
  imports Complex_Main
begin

section \<open>Benchmark regression detection: the model\<close>

text \<open>
  A shallow embedding of \<^verbatim>\<open>scripts/compare_benchmarks.py\<close> (class
  \<^verbatim>\<open>BenchmarkComparator\<close> and \<^verbatim>\<open>main\<close>).

  Modelling conventions.
  \<^item> A Python number (an \<^verbatim>\<open>int\<close> or a finite \<^verbatim>\<open>float\<close> read from a JSON
    document) is a rational, and arithmetic is exact: the rounding of each IEEE operation,
    NaN and the infinities are outside the model. Comparisons of two given numbers are
    the same in both readings.
  \<^item> A Python string is a \<open>string\<close>; characters beyond ASCII are written as their
    UTF-8 bytes.
  \<^item> A benchmark record is the dictionary of one entry of the document, restricted to
    the three keys the program reads; each key may be absent, and a key that is present
    holds a value of the type the program expects (a string for \<^verbatim>\<open>name\<close>, a number for
    the two measurements).
  \<^item> An exception is a value of \<open>py_error\<close>; a function that can raise returns
    \<open>py_error + 'a\<close> with \<open>Inl\<close> for the exception. Nothing in the program catches
    the exceptions modelled here, so the object in the state it had when one was raised is
    not kept.
  \<^item> The attributes of \<^verbatim>\<open>self\<close> are a record that every method takes and, when it
    mutates a list, returns updated.
\<close>

type_synonym num = rat

datatype py_error = KeyError string | ZeroDivisionError | SystemExit int

definition py_bind :: "py_error + 'a \<Rightarrow> ('a \<Rightarrow> py_error + 'b) \<Rightarrow> py_error + 'b" where
  "py_bind m f = (case m of Inl e \<Rightarrow> Inl e | Inr v \<Rightarrow> f v)"

subsection \<open>Threshold table\<close>

text \<open>
  \<^verbatim>\<open>REGRESSION_THRESHOLDS\<close> has the eight keys \<^verbatim>\<open>core_latency_warning\<close>,
  \<^verbatim>\<open>core_latency_critical\<close> and so on for the four categories; a key is
  modelled as the pair of its category and its level.
\<close>

datatype category = core_latency | safety_overhead | throughput | memory

datatype level = warning | critical

fun REGRESSION_THRESHOLDS :: "category \<Rightarrow> level \<Rightarrow> num" where
  "REGRESSION_THRESHOLDS core_latency warning = 10 / 100"
| "REGRESSION_THRESHOLDS core_latency critical = 25 / 100"
| "REGRESSION_THRESHOLDS safety_overhead warning = 5 / 100"
| "REGRESSION_THRESHOLDS safety_overhead critical = 15 / 100"
| "REGRESSION_THRESHOLDS throughput warning = 15 / 100"
| "REGRESSION_THRESHOLDS throughput critical = 30 / 100"
| "REGRESSION_THRESHOLDS memory warning = 20 / 100"
| "REGRESSION_THRESHOLDS memory critical = 50 / 100"

subsection \<open>Percentage change\<close>

text \<open>Python's \<^verbatim>\<open>/\<close> raises \<^verbatim>\<open>ZeroDivisionError\<close> on a zero divisor.\<close>

definition truediv :: "num \<Rightarrow> num \<Rightarrow> py_error + num" where
  "truediv a b = (if b = 0 then Inl ZeroDivisionError else Inr (a / b))"

definition calculate_percentage_change :: "num \<Rightarrow> num \<Rightarrow> py_error + num" where
  "calculate_percentage_change baseline current =
     (if baseline = 0 then Inr 0
      else truediv (current - baseline) baseline)"

subsection \<open>Severity classification\<close>

definition assess_performance_change :: "num \<Rightarrow> category \<Rightarrow> string" where
  "assess_performance_change change cat =
     (let warning_threshold = REGRESSION_THRESHOLDS cat warning;
          critical_threshold = REGRESSION_THRESHOLDS cat critical
      in if change > critical_threshold then ''CRITICAL''
         else if change > warning_threshold then ''WARNING''
         else if change < - (5 / 100) then ''IMPROVEMENT''
         else ''OK'')"

definition assess_throughput_change :: "num \<Rightarrow> string" where
  "assess_throughput_change change =
     (if change < - REGRESSION_THRESHOLDS throughput critical then ''CRITICAL''
      else if change < - REGRESSION_THRESHOLDS throughput warning then ''WARNING''
      else if change > 5 / 100 then ''IMPROVEMENT''
      else ''OK'')"

subsection \<open>Strings and number formatting\<close>

text \<open>\<^verbatim>\<open>s.replace(old, new)\<close>: every occurrence, left to right, without overlap.\<close>

function replace :: "string \<Rightarrow> string \<Rightarrow> string \<Rightarrow> string" where
  "replace [] old new = (if old = [] then new else [])"
| "replace (c # cs) old new =
     (if old = [] then new @ c # replace cs old new
      else if take (length old) (c # cs) = old
           then new @ replace (drop (length old) (c # cs)) old new
           else c # replace cs old new)"
  by pat_completeness auto
termination
  by (relation "measure (\<lambda>(s, old, new). length s)") auto

text \<open>\<^verbatim>\<open>f"{s:15s}"\<close>: a string is padded with spaces on the right up to the width.\<close>

definition ljust :: "nat \<Rightarrow> string \<Rightarrow> string" where
  "ljust width s = s @ replicate (width - length s) CHR '' ''"

text \<open>\<^verbatim>\<open>"\n".join(report)\<close>\<close>

fun join_lines :: "string list \<Rightarrow> string" where
  "join_lines [] = []"
| "join_lines [l] = l"
| "join_lines (l # ls) = l @ CHR 0x0A # join_lines ls"

definition digit_char :: "nat \<Rightarrow> char" where
  "digit_char d = ''0123456789'' ! d"

fun str_nat :: "nat \<Rightarrow> string" where
  "str_nat n = (if n < 10 then [digit_char n] else str_nat (n div 10) @ [digit_char (n mod 10)])"

declare str_nat.simps [simp del]

text \<open>
  Rounding to the nearest integer, ties to even: \<^verbatim>\<open>format\<close> rounds the exact value of
  its argument to the requested number of decimals in this way.
\<close>

definition round_half_even :: "num \<Rightarrow> int" where
  "round_half_even x =
     (let f = \<lfloor>x\<rfloor>; d = x - of_int f
      in if d < 1 / 2 then f
         else if d > 1 / 2 then f + 1
         else if even f then f else f + 1)"

text \<open>
  \<^verbatim>\<open>f"{x:.1f}"\<close>, \<^verbatim>\<open>f"{x:.2f}"\<close> (\<open>show_sign = False\<close>) and \<^verbatim>\<open>f"{x:+.1f}"\<close>,
  \<^verbatim>\<open>f"{x:+.2f}"\<close> (\<open>show_sign = True\<close>), for a precision of at least one decimal. The sign
  is that of the argument, also when the rounded value is zero.
\<close>

definition format_f :: "bool \<Rightarrow> nat \<Rightarrow> num \<Rightarrow> string" where
  "format_f show_sign prec x =
     (let m = nat (round_half_even (\<bar>x\<bar> * 10 ^ prec));
          sign = (if x < 0 then ''-'' else if show_sign then ''+'' else []);
          frac = str_nat (m mod 10 ^ prec)
      in sign @ str_nat (m div 10 ^ prec) @ ''.'' @
         replicate (prec - length frac) CHR ''0'' @ frac)"

text \<open>The characters of the source beyond ASCII, as UTF-8.\<close>

definition mu :: string where
  "mu = [CHR 0xCE, CHR 0xBC]"

definition arrow :: string where
  "arrow = [CHR 0xE2, CHR 0x86, CHR 0x92]"

definition cross_mark :: string where
  "cross_mark = [CHR 0xE2, CHR 0x9D, CHR 0x8C]"

definition warning_sign :: string where
  "warning_sign = [CHR 0xE2, CHR 0x9A, CHR 0xA0, CHR 0xEF, CHR 0xB8, CHR 0x8F]"

definition check_mark :: string where
  "check_mark = [CHR 0xE2, CHR 0x9C, CHR 0x85]"

definition format_time :: "num \<Rightarrow> string" where
  "format_time time_us =
     (if time_us < 1 then format_f False 2 (time_us * 1000) @ '' ns''
      else if time_us < 1000 then format_f False 2 time_us @ '' '' @ mu @ ''s''
      else format_f False 2 (time_us / 1000) @ '' ms'')"

subsection \<open>Result sets and the comparator object\<close>

record benchmark =
  name :: "string option"
  cpu_time :: "num option"
  bytes_per_second :: "num option"

text \<open>The loaded document \<^verbatim>\<open>{'benchmarks': [...]}\<close>.\<close>

record bench_data =
  benchmarks :: "benchmark list"

record comparator =
  baseline_file :: string
  current_file :: string
  baseline_data :: bench_data
  current_data :: bench_data
  warnings :: "string list"
  critical_issues :: "string list"

text \<open>\<^verbatim>\<open>d.get(key, default)\<close> and \<^verbatim>\<open>d[key]\<close> on an entry that may be absent.\<close>

definition get_default :: "'a option \<Rightarrow> 'a \<Rightarrow> 'a" where
  "get_default entry dflt = (case entry of None \<Rightarrow> dflt | Some v \<Rightarrow> v)"

definition subscript :: "'a option \<Rightarrow> string \<Rightarrow> py_error + 'a" where
  "subscript entry key = (case entry of None \<Rightarrow> Inl (KeyError key) | Some v \<Rightarrow> Inr v)"

text \<open>
  \<^verbatim>\<open>results[key] = value\<close> on a dictionary kept in insertion order: an existing key
  keeps its place, a new key goes last.
\<close>

fun dict_set :: "('k \<times> 'v) list \<Rightarrow> 'k \<Rightarrow> 'v \<Rightarrow> ('k \<times> 'v) list" where
  "dict_set [] key v = [(key, v)]"
| "dict_set ((k, v0) # d) key v =
     (if k = key then (key, v) # d else (k, v0) # dict_set d key v)"

text \<open>A \<^verbatim>\<open>for\<close> loop whose body may raise: the first exception ends the loop.\<close>

fun for_each :: "('a \<Rightarrow> 's \<Rightarrow> py_error + 's) \<Rightarrow> 'a list \<Rightarrow> 's \<Rightarrow> py_error + 's" where
  "for_each body [] s = Inr s"
| "for_each body (x # xs) s = py_bind (body x s) (for_each body xs)"

fun get_benchmark_by_name :: "benchmark list \<Rightarrow> string \<Rightarrow> benchmark option" where
  "get_benchmark_by_name [] nm = None"
| "get_benchmark_by_name (bench # rest) nm =
     (if name bench = Some nm then Some bench else get_benchmark_by_name rest nm)"

subsection \<open>Core latency comparison\<close>

text \<open>
  The dictionary stored for one benchmark. The keys \<^verbatim>\<open>change_percent\<close> and
  \<^verbatim>\<open>status\<close> occur in the results of the three comparisons; the fields carry the
  name of the comparison in front, since a field name belongs to one record type.
\<close>

record core_result =
  baseline_time :: num
  current_time :: num
  core_change_percent :: num
  core_status :: string

definition core_benchmarks :: "string list" where
  "core_benchmarks =
     [''BM_MakeMove_ShortChain_mean'',
      ''BM_MakeMove_MediumChain_mean'',
      ''BM_MakeMove_LongChain_mean'']"

text \<open>The two messages of the threshold check differ in their first word only.\<close>

definition core_message :: "string \<Rightarrow> string \<Rightarrow> num \<Rightarrow> num \<Rightarrow> num \<Rightarrow> string" where
  "core_message sev bench_name change b_time c_time =
     sev @ '': '' @ bench_name @ '' increased by '' @ format_f False 1 (change * 100) @ ''% ''
     @ ''('' @ format_time b_time @ '' '' @ arrow @ '' '' @ format_time c_time @ '')''"

text \<open>The body of the loop of \<^verbatim>\<open>compare_core_performance\<close>, for one benchmark name.\<close>

definition core_body ::
  "string \<Rightarrow> (string \<times> core_result) list \<times> comparator
     \<Rightarrow> py_error + (string \<times> core_result) list \<times> comparator" where
  "core_body bench_name acc =
     (let (results, self) = acc;
          baseline = get_benchmark_by_name (benchmarks (baseline_data self)) bench_name;
          current = get_benchmark_by_name (benchmarks (current_data self)) bench_name
      in case (baseline, current) of
           (Some baseline, Some current) \<Rightarrow>
             (let b_time = get_default (cpu_time baseline) 0;
                  c_time = get_default (cpu_time current) 0
              in py_bind (calculate_percentage_change b_time c_time) (\<lambda>change.
                 let results = dict_set results bench_name
                       \<lparr>baseline_time = b_time,
                        current_time = c_time,
                        core_change_percent = change * 100,
                        core_status = assess_performance_change change core_latency\<rparr>
                 in if change > REGRESSION_THRESHOLDS core_latency critical
                    then Inr (results, self\<lparr>critical_issues := critical_issues self @
                           [core_message ''CRITICAL'' bench_name change b_time c_time]\<rparr>)
                    else if change > REGRESSION_THRESHOLDS core_latency warning
                    then Inr (results, self\<lparr>warnings := warnings self @
                           [core_message ''WARNING'' bench_name change b_time c_time]\<rparr>)
                    else Inr (results, self)))
         | _ \<Rightarrow> Inr (results, self))"

definition compare_core_performance ::
  "comparator \<Rightarrow> py_error + (string \<times> core_result) list \<times> comparator" where
  "compare_core_performance self = for_each core_body core_benchmarks ([], self)"

subsection \<open>Safety overhead comparison\<close>

record safety_result =
  baseline_overhead_percent :: num
  current_overhead_percent :: num
  overhead_change_percent :: num
  safety_status :: string

definition safety_message :: "string \<Rightarrow> num \<Rightarrow> num \<Rightarrow> num \<Rightarrow> string" where
  "safety_message sev overhead_change baseline_overhead current_overhead =
     sev @ '': Safety overhead increased by '' @ format_f False 1 (overhead_change * 100) @ ''% ''
     @ ''('' @ format_f False 1 (baseline_overhead * 100) @ ''% '' @ arrow @ '' ''
     @ format_f False 1 (current_overhead * 100) @ ''%)''"

text \<open>The empty dictionary that is returned when a record is missing is \<open>None\<close>.\<close>

definition compare_safety_overhead ::
  "comparator \<Rightarrow> py_error + safety_result option \<times> comparator" where
  "compare_safety_overhead self =
     (let validate_only = get_benchmark_by_name
            (benchmarks (baseline_data self)) ''BM_SafetyLevel_Comparison/0_mean'';
          light_undo_baseline = get_benchmark_by_name
            (benchmarks (baseline_data self)) ''BM_SafetyLevel_Comparison/1_mean'';
          validate_only_current = get_benchmark_by_name
            (benchmarks (current_data self)) ''BM_SafetyLevel_Comparison/0_mean'';
          light_undo_current = get_benchmark_by_name
            (benchmarks (current_data self)) ''BM_SafetyLevel_Comparison/1_mean''
      in case (validate_only, light_undo_baseline, validate_only_current, light_undo_current) of
           (Some validate_only, Some light_undo_baseline,
            Some validate_only_current, Some light_undo_current) \<Rightarrow>
             py_bind (subscript (cpu_time validate_only) ''cpu_time'') (\<lambda>t0.
             py_bind (subscript (cpu_time light_undo_baseline) ''cpu_time'') (\<lambda>t1.
             py_bind (calculate_percentage_change t0 t1) (\<lambda>baseline_overhead.
             py_bind (subscript (cpu_time validate_only_current) ''cpu_time'') (\<lambda>t2.
             py_bind (subscript (cpu_time light_undo_current) ''cpu_time'') (\<lambda>t3.
             py_bind (calculate_percentage_change t2 t3) (\<lambda>current_overhead.
               let overhead_change = current_overhead - baseline_overhead;
                   result =
                     \<lparr>baseline_overhead_percent = baseline_overhead * 100,
                      current_overhead_percent = current_overhead * 100,
                      overhead_change_percent = overhead_change * 100,
                      safety_status = assess_performance_change overhead_change safety_overhead\<rparr>
               in if overhead_change > REGRESSION_THRESHOLDS safety_overhead critical
                  then Inr (Some result, self\<lparr>critical_issues := critical_issues self @
                         [safety_message ''CRITICAL'' overhead_change
                            baseline_overhead current_overhead]\<rparr>)
                  else if overhead_change > REGRESSION_THRESHOLDS safety_overhead warning
                  then Inr (Some result, self\<lparr>warnings := warnings self @
                         [safety_message ''WARNING'' overhead_change
                            baseline_overhead current_overhead]\<rparr>)
                  else Inr (Some result, self)))))))
         | _ \<Rightarrow> Inr (None, self))"

subsection \<open>Memory throughput comparison\<close>

record memory_result =
  baseline_throughput :: num
  current_throughput :: num
  memory_change_percent :: num
  memory_status :: string

definition memory_benchmarks :: "string list" where
  "memory_benchmarks =
     [''BM_MakeMove_MemoryTracking/64_mean'',
      ''BM_MakeMove_MemoryTracking/256_mean'']"

definition memory_message :: "string \<Rightarrow> string \<Rightarrow> num \<Rightarrow> string" where
  "memory_message sev bench_name change =
     sev @ '': '' @ bench_name @ '' throughput decreased by ''
     @ format_f False 1 (\<bar>change\<bar> * 100) @ ''%''"

definition memory_body ::
  "string \<Rightarrow> (string \<times> memory_result) list \<times> comparator
     \<Rightarrow> py_error + (string \<times> memory_result) list \<times> comparator" where
  "memory_body bench_name acc =
     (let (results, self) = acc;
          baseline = get_benchmark_by_name (benchmarks (baseline_data self)) bench_name;
          current = get_benchmark_by_name (benchmarks (current_data self)) bench_name
      in case (baseline, current) of
           (Some baseline, Some current) \<Rightarrow>
             (let b_throughput = get_default (bytes_per_second baseline) 0;
                  c_throughput = get_default (bytes_per_second current) 0
              in py_bind (calculate_percentage_change b_throughput c_throughput) (\<lambda>change.
                 let results = dict_set results bench_name
                       \<lparr>baseline_throughput = b_throughput,
                        current_throughput = c_throughput,
                        memory_change_percent = change * 100,
                        memory_status = assess_throughput_change change\<rparr>
                 in if change < - REGRESSION_THRESHOLDS throughput critical
                    then Inr (results, self\<lparr>critical_issues := critical_issues self @
                           [memory_message ''CRITICAL'' bench_name change]\<rparr>)
                    else if change < - REGRESSION_THRESHOLDS throughput warning
                    then Inr (results, self\<lparr>warnings := warnings self @
                           [memory_message ''WARNING'' bench_name change]\<rparr>)
                    else Inr (results, self)))
         | _ \<Rightarrow> Inr (results, self))"

definition compare_memory_performance ::
  "comparator \<Rightarrow> py_error + (string \<times> memory_result) list \<times> comparator" where
  "compare_memory_performance self = for_each memory_body memory_benchmarks ([], self)"

subsection \<open>Report\<close>

text \<open>
  The formatted lines of \<^verbatim>\<open>generate_report\<close>: the line of one core result, the
  lines of the overhead section, the line of one memory result, and the lines of the
  summary between its heading and the closing blank line.
\<close>

definition core_line :: "string \<times> core_result \<Rightarrow> string" where
  "core_line entry =
     (let (bench_name, data) = entry;
          clean_name = replace (replace bench_name ''BM_MakeMove_'' []) ''_mean'' []
      in ljust 15 clean_name @ '': '' @ format_time (baseline_time data) @ '' '' @ arrow @ '' ''
         @ format_time (current_time data) @ '' ''
         @ ''('' @ format_f True 1 (core_change_percent data) @ ''%) ['' @ core_status data @ '']'')"

definition safety_lines :: "safety_result option \<Rightarrow> string list" where
  "safety_lines safety_results =
     (case safety_results of
        Some r \<Rightarrow>
          [''Baseline overhead: '' @ format_f False 2 (baseline_overhead_percent r) @ ''%'',
           ''Current overhead:  '' @ format_f False 2 (current_overhead_percent r) @ ''%'',
           ''Change:           '' @ format_f True 2 (overhead_change_percent r) @ ''% ''
             @ ''['' @ safety_status r @ '']'']
      | None \<Rightarrow> [''Safety overhead data not available''])"

definition memory_line :: "string \<times> memory_result \<Rightarrow> string" where
  "memory_line entry =
     (let (bench_name, data) = entry;
          clean_name = replace (replace bench_name ''BM_MakeMove_MemoryTracking/'' []) ''_mean'' []
      in ''Chain '' @ ljust 3 clean_name @ '': '' @ format_f True 1 (memory_change_percent data)
         @ ''% throughput change '' @ ''['' @ memory_status data @ '']'')"

definition summary_lines :: "comparator \<Rightarrow> string list" where
  "summary_lines self =
     (if critical_issues self \<noteq> []
      then (cross_mark @ '' CRITICAL ISSUES DETECTED:'')
             # map (\<lambda>issue. ''   '' @ issue) (critical_issues self)
      else [])
     @ (if warnings self \<noteq> []
        then (warning_sign @ ''  WARNINGS:'')
               # map (\<lambda>warning. ''   '' @ warning) (warnings self)
        else [])
     @ (if critical_issues self = [] \<and> warnings self = []
        then [check_mark @ '' No performance regressions detected'']
        else [])"

text \<open>
  The list \<^verbatim>\<open>report\<close> of \<^verbatim>\<open>generate_report\<close> as it stands before the final join,
  with the object after the three comparisons.
\<close>

definition report_lines :: "comparator \<Rightarrow> py_error + string list \<times> comparator" where
  "report_lines self =
     (let report =
            [replicate 60 CHR ''='',
             ''BENCHMARK REGRESSION ANALYSIS REPORT'',
             replicate 60 CHR ''='',
             ''Baseline: '' @ baseline_file self,
             ''Current:  '' @ current_file self,
             [],
             ''CORE PERFORMANCE ANALYSIS'',
             replicate 40 CHR ''-'']
      in py_bind (compare_core_performance self) (\<lambda>(core_results, self).
         let report = report @ map core_line core_results
               @ [[], ''SAFETY SYSTEM OVERHEAD ANALYSIS'', replicate 40 CHR ''-'']
         in py_bind (compare_safety_overhead self) (\<lambda>(safety_results, self).
            let report = report @ safety_lines safety_results
                  @ [[], ''MEMORY PERFORMANCE ANALYSIS'', replicate 40 CHR ''-'']
            in py_bind (compare_memory_performance self) (\<lambda>(memory_results, self).
               let report = report @ map memory_line memory_results
                     @ [[], ''SUMMARY'', replicate 40 CHR ''-'']
                     @ summary_lines self
                     @ [[], replicate 60 CHR ''='']
               in Inr (report, self)))))"

definition generate_report :: "comparator \<Rightarrow> py_error + string \<times> comparator" where
  "generate_report self =
     py_bind (report_lines self) (\<lambda>(report, self). Inr (join_lines report, self))"

subsection \<open>Exit code\<close>

definition get_exit_code :: "comparator \<Rightarrow> int" where
  "get_exit_code self =
     (if critical_issues self \<noteq> [] then 2
      else if warnings self \<noteq> [] then 1
      else 0)"

subsection \<open>Loading and the command line\<close>

text \<open>
  What \<^verbatim>\<open>json.load\<close> returns for a file that parses: a dictionary with the key
  \<^verbatim>\<open>benchmarks\<close>, or the bare list of the older format. A path of the file system
  holds such a document, text that does not parse, or nothing. Text that is printed goes
  to standard output, one entry for each call of \<^verbatim>\<open>print\<close>; the program never writes
  to the error stream itself. A report written with \<^verbatim>\<open>--output\<close> is recorded with
  its path.
\<close>

datatype document = Object bench_data | Array "benchmark list"

datatype file_content = NotFound | InvalidJSON | JSON document

record world =
  files :: "string \<Rightarrow> file_content"
  stdout :: "string list"
  stderr :: "string list"
  written :: "(string \<times> string) list"

definition print :: "string \<Rightarrow> world \<Rightarrow> world" where
  "print s w = w\<lparr>stdout := stdout w @ [s]\<rparr>"

definition load_json :: "string \<Rightarrow> world \<Rightarrow> (py_error + bench_data) \<times> world" where
  "load_json filename w =
     (case files w filename of
        JSON (Object data) \<Rightarrow> (Inr data, w)
      | JSON (Array data) \<Rightarrow> (Inr \<lparr>benchmarks = data\<rparr>, w)
      | NotFound \<Rightarrow>
          (Inl (SystemExit 1), print (''Error: File '' @ filename @ '' not found'') w)
      | InvalidJSON \<Rightarrow>
          (Inl (SystemExit 1), print (''Error: Invalid JSON in '' @ filename) w))"

text \<open>The constructor \<^verbatim>\<open>BenchmarkComparator(baseline_file, current_file)\<close>.\<close>

definition init :: "string \<Rightarrow> string \<Rightarrow> world \<Rightarrow> (py_error + comparator) \<times> world" where
  "init baseline_file' current_file' w =
     (case load_json baseline_file' w of
        (Inl e, w) \<Rightarrow> (Inl e, w)
      | (Inr baseline_data', w) \<Rightarrow>
          (case load_json current_file' w of
             (Inl e, w) \<Rightarrow> (Inl e, w)
           | (Inr current_data', w) \<Rightarrow>
               (Inr \<lparr>baseline_file = baseline_file',
                     current_file = current_file',
                     baseline_data = baseline_data',
                     current_data = current_data',
                     warnings = [],
                     critical_issues = []\<rparr>, w)))"

definition str_int :: "int \<Rightarrow> string" where
  "str_int i = (if i < 0 then ''-'' @ str_nat (nat (- i)) else str_nat (nat i))"

text \<open>
  The parsed command line. \<^verbatim>\<open>main\<close> ends with \<open>Inr ()\<close> when it returns, and
  with \<open>Inl (SystemExit n)\<close> or another exception when one leaves it.
\<close>

record args =
  baseline :: string
  current :: string
  "output" :: "string option"
  exit_on_regression :: bool

definition main :: "args \<Rightarrow> world \<Rightarrow> (py_error + unit) \<times> world" where
  "main a w =
     (case init (baseline a) (current a) w of
        (Inl e, w) \<Rightarrow> (Inl e, w)
      | (Inr comparator, w) \<Rightarrow>
          (case generate_report comparator of
             Inl e \<Rightarrow> (Inl e, w)
           | Inr (report, comparator) \<Rightarrow>
               (let w = (case output a of
                           Some path \<Rightarrow>
                             if path \<noteq> []
                             then print (''Report written to '' @ path)
                                    (w\<lparr>written := written w @ [(path, report)]\<rparr>)
                             else print report w
                         | None \<Rightarrow> print report w)
                in if exit_on_regression a
                   then (let exit_code = get_exit_code comparator;
                             w = (if exit_code \<noteq> 0
                                  then print (CHR 0x0A # ''Exiting with code '' @ str_int exit_code
                                                @ '' due to performance issues'') w
                                  else w)
                         in (Inl (SystemExit exit_code), w))
                   else (Inr (), w))))"

subsection \<open>Notions used in the statements\<close>

text \<open>
  The object with further messages appended to its two lists, and the two look-ups that
  every comparison starts with.
\<close>

definition extend :: "comparator \<Rightarrow> string list \<Rightarrow> string list \<Rightarrow> comparator" where
  "extend self ws cs =
     self\<lparr>warnings := warnings self @ ws, critical_issues := critical_issues self @ cs\<rparr>"

abbreviation lookup_baseline :: "comparator \<Rightarrow> string \<Rightarrow> benchmark option" where
  "lookup_baseline self nm \<equiv> get_benchmark_by_name (benchmarks (baseline_data self)) nm"

abbreviation lookup_current :: "comparator \<Rightarrow> string \<Rightarrow> benchmark option" where
  "lookup_current self nm \<equiv> get_benchmark_by_name (benchmarks (current_data self)) nm"

text \<open>
  What one comparison with the status \<open>st\<close> may do to the object: it appends one
  message to \<open>warnings\<close> when the status is \<open>WARNING\<close>, one message to
  \<open>critical_issues\<close> when it is \<open>CRITICAL\<close>, and changes nothing else.
\<close>

definition contributes :: "string \<Rightarrow> comparator \<Rightarrow> comparator \<Rightarrow> bool" where
  "contributes st self self' \<longleftrightarrow>
     (let ws = drop (length (warnings self)) (warnings self');
          cs = drop (length (critical_issues self)) (critical_issues self')
      in self' = extend self ws cs \<and>
         length ws = (if st = ''WARNING'' then 1 else 0) \<and>
         length cs = (if st = ''CRITICAL'' then 1 else 0))"





subsection \<open>Example inputs\<close>

definition example_lists :: "string list \<Rightarrow> string list \<Rightarrow> comparator" where
  "example_lists ws cs =
     \<lparr>baseline_file = ''base.json'', current_file = ''cur.json'',
      baseline_data = \<lparr>benchmarks = []\<rparr>, current_data = \<lparr>benchmarks = []\<rparr>,
      warnings = ws, critical_issues = cs\<rparr>"

definition bench :: "string \<Rightarrow> num \<Rightarrow> benchmark" where
  "bench nm t = \<lparr>name = Some nm, cpu_time = Some t, bytes_per_second = None\<rparr>"

definition example_baseline :: "benchmark list" where
  "example_baseline =
     [bench ''BM_MakeMove_ShortChain_mean'' 100,
      bench ''BM_MakeMove_MediumChain_mean'' 200,
      bench ''BM_SafetyLevel_Comparison/0_mean'' 100,
      bench ''BM_SafetyLevel_Comparison/1_mean'' 110,
      \<lparr>name = Some ''BM_MakeMove_MemoryTracking/64_mean'', cpu_time = Some 50,
       bytes_per_second = Some 1000\<rparr>]"

definition example_current :: "benchmark list" where
  "example_current =
     [bench ''BM_MakeMove_ShortChain_mean'' 120,
      bench ''BM_SafetyLevel_Comparison/0_mean'' 100,
      bench ''BM_SafetyLevel_Comparison/1_mean'' 118,
      \<lparr>name = Some ''BM_MakeMove_MemoryTracking/64_mean'', cpu_time = Some 50,
       bytes_per_second = Some 600\<rparr>]"

definition example_comparator :: comparator where
  "example_comparator =
     \<lparr>baseline_file = ''baseline.json'', current_file = ''current.json'',
      baseline_data = \<lparr>benchmarks = example_baseline\<rparr>,
      current_data = \<lparr>benchmarks = example_current\<rparr>,
      warnings = [], critical_issues = []\<rparr>"

definition example_incomplete :: comparator where
  "example_incomplete =
     \<lparr>baseline_file = ''old.json'', current_file = ''new.json'',
      baseline_data = \<lparr>benchmarks =
        [\<lparr>name = Some ''BM_MakeMove_ShortChain_mean'', cpu_time = None,
          bytes_per_second = None\<rparr>,
         bench ''BM_SafetyLevel_Comparison/0_mean'' 100,
         bench ''BM_SafetyLevel_Comparison/1_mean'' 110]\<rparr>,
      current_data = \<lparr>benchmarks =
        [bench ''BM_MakeMove_ShortChain_mean'' 120,
         bench ''BM_SafetyLevel_Comparison/0_mean'' 100,
         \<lparr>name = Some ''BM_SafetyLevel_Comparison/1_mean'', cpu_time = None,
          bytes_per_second = None\<rparr>]\<rparr>,
      warnings = [], critical_issues = []\<rparr>"

definition example_world :: world where
  "example_world =
     \<lparr>files = (\<lambda>path.
        if path = ''baseline.json'' then JSON (Object \<lparr>benchmarks = example_baseline\<rparr>)
        else if path = ''current.json'' then JSON (Array example_current)
        else if path = ''old.json'' then JSON (Array (benchmarks (baseline_data example_incomplete)))
        else if path = ''new.json'' then JSON (Array (benchmarks (current_data example_incomplete)))
        else if path = ''broken.json'' then InvalidJSON
        else NotFound),
      stdout = [], stderr = [], written = []\<rparr>"

definition example_args :: "string \<Rightarrow> string \<Rightarrow> args" where
  "example_args baseline_path current_path =
     \<lparr>baseline = baseline_path, current = current_path, output = None,
      exit_on_regression = True\<rparr>"



section \<open>Properties\<close>

subsection \<open>Auxiliary facts\<close>

subsubsection \<open>Exceptions and the object\<close>

lemma calc_Inr:
  "calculate_percentage_change b c = Inr (if b = 0 then 0 else (c - b) / b)"
  by (simp add: calculate_percentage_change_def truediv_def)

lemma py_bind_Inr [simp]: "py_bind (Inr v) f = f v"
  by (simp add: py_bind_def)

lemma py_bind_Inl [simp]: "py_bind (Inl e) f = Inl e"
  by (simp add: py_bind_def)

lemma extend_nil: "extend self [] [] = self"
  by (simp add: extend_def)

lemma extend_extend: "extend (extend self a b) c d = extend self (a @ c) (b @ d)"
  by (simp add: extend_def)

lemma extend_fields [simp]:
  "baseline_file (extend self ws cs) = baseline_file self"
  "current_file (extend self ws cs) = current_file self"
  "baseline_data (extend self ws cs) = baseline_data self"
  "current_data (extend self ws cs) = current_data self"
  "warnings (extend self ws cs) = warnings self @ ws"
  "critical_issues (extend self ws cs) = critical_issues self @ cs"
  by (simp_all add: extend_def)

lemma append_warning: "self\<lparr>warnings := warnings self @ [m]\<rparr> = extend self [m] []"
  by (simp add: extend_def)

lemma append_critical: "self\<lparr>critical_issues := critical_issues self @ [m]\<rparr> = extend self [] [m]"
  by (simp add: extend_def)

lemma keys_dict_set: "fst ` set (dict_set d k v) = insert k (fst ` set d)"
  by (induction d k v rule: dict_set.induct) auto

subsubsection \<open>One pass of a loop, and the loops\<close>

lemma core_body_missing:
  "lookup_baseline self n = None \<or> lookup_current self n = None \<Longrightarrow>
   core_body n (results, self) = Inr (results, self)"
  by (auto simp add: core_body_def split: option.splits)

lemma core_body_found:
  assumes "lookup_baseline self n = Some b" and "lookup_current self n = Some c"
    and "calculate_percentage_change (get_default (cpu_time b) 0) (get_default (cpu_time c) 0) = Inr change"
  shows "core_body n (results, self) =
      Inr (dict_set results n
             \<lparr>baseline_time = get_default (cpu_time b) 0,
              current_time = get_default (cpu_time c) 0,
              core_change_percent = change * 100,
              core_status = assess_performance_change change core_latency\<rparr>,
           if change > REGRESSION_THRESHOLDS core_latency critical
           then extend self []
                  [core_message ''CRITICAL'' n change (get_default (cpu_time b) 0) (get_default (cpu_time c) 0)]
           else if change > REGRESSION_THRESHOLDS core_latency warning
           then extend self
                  [core_message ''WARNING'' n change (get_default (cpu_time b) 0) (get_default (cpu_time c) 0)] []
           else self)"
  using assms by (simp add: core_body_def Let_def append_warning append_critical)


lemma memory_body_found:
  assumes "lookup_baseline self n = Some b" and "lookup_current self n = Some c"
    and "calculate_percentage_change (get_default (bytes_per_second b) 0)
           (get_default (bytes_per_second c) 0) = Inr change"
  shows "memory_body n (results, self) =
      Inr (dict_set results n
             \<lparr>baseline_throughput = get_default (bytes_per_second b) 0,
              current_throughput = get_default (bytes_per_second c) 0,
              memory_change_percent = change * 100,
              memory_status = assess_throughput_change change\<rparr>,
           if change < - REGRESSION_THRESHOLDS throughput critical
           then extend self [] [memory_message ''CRITICAL'' n change]
           else if change < - REGRESSION_THRESHOLDS throughput warning
           then extend self [memory_message ''WARNING'' n change] []
           else self)"
  using assms by (simp add: memory_body_def Let_def append_warning append_critical)

lemma choice_extend:
  "\<exists>ws cs. (if P then extend self [] [m1] else if Q then extend self [m2] [] else self)
     = extend self ws cs"
proof (cases P)
  case True
  then show ?thesis by auto
next
  case False
  show ?thesis
  proof (cases Q)
    case True
    with \<open>\<not> P\<close> show ?thesis by auto
  next
    case False
    have "self = extend self [] []" by (simp add: extend_nil)
    then have "\<exists>ws cs. self = extend self ws cs" by blast
    with \<open>\<not> P\<close> \<open>\<not> Q\<close> show ?thesis by simp
  qed
qed

lemma core_body_effect:
  "\<exists>results' ws cs.
     core_body n (results, self) = Inr (results', extend self ws cs) \<and>
     fst ` set results' \<subseteq> fst ` set results \<union>
       {k. k = n \<and> lookup_baseline self k \<noteq> None \<and> lookup_current self k \<noteq> None}"
proof (cases "lookup_baseline self n = None \<or> lookup_current self n = None")
  case True
  then have "core_body n (results, self) = Inr (results, extend self [] [])"
    by (simp add: core_body_missing extend_nil)
  then show ?thesis by blast
next
  case False
  then obtain b c where bc: "lookup_baseline self n = Some b" "lookup_current self n = Some c"
    by auto
  obtain ch where ch: "calculate_percentage_change (get_default (cpu_time b) 0)
      (get_default (cpu_time c) 0) = Inr ch"
    by (simp add: calc_Inr)
  note found = core_body_found [OF bc ch, of results]
  have keys: "fst ` set (dict_set results n r) \<subseteq> fst ` set results \<union>
       {k. k = n \<and> lookup_baseline self k \<noteq> None \<and> lookup_current self k \<noteq> None}" for r
    using bc by (auto simp add: keys_dict_set)
  obtain ws cs where "(if ch > REGRESSION_THRESHOLDS core_latency critical
         then extend self []
                [core_message ''CRITICAL'' n ch (get_default (cpu_time b) 0) (get_default (cpu_time c) 0)]
         else if ch > REGRESSION_THRESHOLDS core_latency warning
         then extend self
                [core_message ''WARNING'' n ch (get_default (cpu_time b) 0) (get_default (cpu_time c) 0)] []
         else self) = extend self ws cs"
    using choice_extend by blast
  with found keys show ?thesis by auto
qed


lemma loop_effect:
  assumes body: "\<And>n results self. \<exists>results' ws cs.
     body n (results, self) = Inr (results', extend self ws cs) \<and>
     fst ` set results' \<subseteq> fst ` set results \<union>
       {k. k = n \<and> lookup_baseline self k \<noteq> None \<and> lookup_current self k \<noteq> None}"
  shows "\<exists>results' ws cs.
     for_each body names (results, self) = Inr (results', extend self ws cs) \<and>
     fst ` set results' \<subseteq> fst ` set results \<union>
       {k \<in> set names. lookup_baseline self k \<noteq> None \<and> lookup_current self k \<noteq> None}"
proof (induction names arbitrary: results self)
  case Nil
  have "for_each body [] (results, self) = Inr (results, extend self [] [])"
    by (simp add: extend_nil)
  then show ?case by blast
next
  case (Cons n names)
  obtain r1 ws1 cs1 where 1: "body n (results, self) = Inr (r1, extend self ws1 cs1)"
    and k1: "fst ` set r1 \<subseteq> fst ` set results \<union>
       {k. k = n \<and> lookup_baseline self k \<noteq> None \<and> lookup_current self k \<noteq> None}"
    using body by blast
  obtain r2 ws2 cs2 where 2: "for_each body names (r1, extend self ws1 cs1)
      = Inr (r2, extend (extend self ws1 cs1) ws2 cs2)"
    and k2: "fst ` set r2 \<subseteq> fst ` set r1 \<union>
       {k \<in> set names. lookup_baseline (extend self ws1 cs1) k \<noteq> None
          \<and> lookup_current (extend self ws1 cs1) k \<noteq> None}"
    using Cons.IH by blast
  have "for_each body (n # names) (results, self) = Inr (r2, extend self (ws1 @ ws2) (cs1 @ cs2))"
    using 1 2 by (simp add: extend_extend)
  moreover have "fst ` set r2 \<subseteq> fst ` set results \<union>
       {k \<in> set (n # names). lookup_baseline self k \<noteq> None \<and> lookup_current self k \<noteq> None}"
  proof
    fix k assume "k \<in> fst ` set r2"
    with k2 k1 show "k \<in> fst ` set results \<union>
       {k \<in> set (n # names). lookup_baseline self k \<noteq> None \<and> lookup_current self k \<noteq> None}"
      by (simp add: subset_iff) blast
  qed
  ultimately show ?case by blast
qed


lemma compare_core_effect:
  "\<exists>results ws cs.
     compare_core_performance self = Inr (results, extend self ws cs) \<and>
     fst ` set results \<subseteq>
       {k \<in> set core_benchmarks. lookup_baseline self k \<noteq> None \<and> lookup_current self k \<noteq> None}"
  using loop_effect [of core_body core_benchmarks "[]" self, OF core_body_effect]
  by (simp add: compare_core_performance_def)


subsubsection \<open>The overhead comparison\<close>

lemma safety_missing:
  assumes "lookup_baseline self ''BM_SafetyLevel_Comparison/0_mean'' = None \<or>
     lookup_baseline self ''BM_SafetyLevel_Comparison/1_mean'' = None \<or>
     lookup_current self ''BM_SafetyLevel_Comparison/0_mean'' = None \<or>
     lookup_current self ''BM_SafetyLevel_Comparison/1_mean'' = None"
  shows "compare_safety_overhead self = Inr (None, self)"
  using assms by (auto simp add: compare_safety_overhead_def split: option.splits)

lemma safety_found:
  assumes "lookup_baseline self ''BM_SafetyLevel_Comparison/0_mean'' = Some vo"
    and "lookup_baseline self ''BM_SafetyLevel_Comparison/1_mean'' = Some lb"
    and "lookup_current self ''BM_SafetyLevel_Comparison/0_mean'' = Some vc"
    and "lookup_current self ''BM_SafetyLevel_Comparison/1_mean'' = Some lc"
    and "cpu_time vo = Some t0" and "cpu_time lb = Some t1"
    and "cpu_time vc = Some t2" and "cpu_time lc = Some t3"
    and "calculate_percentage_change t0 t1 = Inr bo"
    and "calculate_percentage_change t2 t3 = Inr co"
  shows "compare_safety_overhead self =
     Inr (Some \<lparr>baseline_overhead_percent = bo * 100,
                current_overhead_percent = co * 100,
                overhead_change_percent = (co - bo) * 100,
                safety_status = assess_performance_change (co - bo) safety_overhead\<rparr>,
          if co - bo > REGRESSION_THRESHOLDS safety_overhead critical
          then extend self [] [safety_message ''CRITICAL'' (co - bo) bo co]
          else if co - bo > REGRESSION_THRESHOLDS safety_overhead warning
          then extend self [safety_message ''WARNING'' (co - bo) bo co] []
          else self)"
  using assms
  by (simp add: compare_safety_overhead_def subscript_def Let_def append_warning append_critical)

lemma safety_key_error:
  assumes "lookup_baseline self ''BM_SafetyLevel_Comparison/0_mean'' = Some vo"
    and "lookup_baseline self ''BM_SafetyLevel_Comparison/1_mean'' = Some lb"
    and "lookup_current self ''BM_SafetyLevel_Comparison/0_mean'' = Some vc"
    and "lookup_current self ''BM_SafetyLevel_Comparison/1_mean'' = Some lc"
    and "cpu_time vo = None \<or> cpu_time lb = None \<or> cpu_time vc = None \<or> cpu_time lc = None"
  shows "compare_safety_overhead self = Inl (KeyError ''cpu_time'')"
  using assms
  by (auto simp add: compare_safety_overhead_def subscript_def calc_Inr split: option.splits)


subsubsection \<open>Thresholds\<close>

lemma threshold_order: "REGRESSION_THRESHOLDS cat warning < REGRESSION_THRESHOLDS cat critical"
  by (cases cat) simp_all

lemma threshold_warning_pos: "0 < REGRESSION_THRESHOLDS cat warning"
  by (cases cat) simp_all

subsubsection \<open>Look-ups in the examples\<close>

lemma example_lookups:
  "lookup_baseline example_comparator ''BM_MakeMove_ShortChain_mean''
     = Some (bench ''BM_MakeMove_ShortChain_mean'' 100)"
  "lookup_current example_comparator ''BM_MakeMove_ShortChain_mean''
     = Some (bench ''BM_MakeMove_ShortChain_mean'' 120)"
  "lookup_baseline example_comparator ''BM_MakeMove_MediumChain_mean''
     = Some (bench ''BM_MakeMove_MediumChain_mean'' 200)"
  "lookup_current example_comparator ''BM_MakeMove_MediumChain_mean'' = None"
  "lookup_baseline example_comparator ''BM_MakeMove_LongChain_mean'' = None"
  "lookup_current example_comparator ''BM_MakeMove_LongChain_mean'' = None"
  "lookup_baseline example_comparator ''BM_SafetyLevel_Comparison/0_mean''
     = Some (bench ''BM_SafetyLevel_Comparison/0_mean'' 100)"
  "lookup_baseline example_comparator ''BM_SafetyLevel_Comparison/1_mean''
     = Some (bench ''BM_SafetyLevel_Comparison/1_mean'' 110)"
  "lookup_current example_comparator ''BM_SafetyLevel_Comparison/0_mean''
     = Some (bench ''BM_SafetyLevel_Comparison/0_mean'' 100)"
  "lookup_current example_comparator ''BM_SafetyLevel_Comparison/1_mean''
     = Some (bench ''BM_SafetyLevel_Comparison/1_mean'' 118)"
  "lookup_baseline example_comparator ''BM_MakeMove_MemoryTracking/64_mean''
     = Some \<lparr>name = Some ''BM_MakeMove_MemoryTracking/64_mean'', cpu_time = Some 50,
         bytes_per_second = Some 1000\<rparr>"
  "lookup_current example_comparator ''BM_MakeMove_MemoryTracking/64_mean''
     = Some \<lparr>name = Some ''BM_MakeMove_MemoryTracking/64_mean'', cpu_time = Some 50,
         bytes_per_second = Some 600\<rparr>"
  "lookup_baseline example_comparator ''BM_MakeMove_MemoryTracking/256_mean'' = None"
  "lookup_current example_comparator ''BM_MakeMove_MemoryTracking/256_mean'' = None"
  by (simp_all add: example_comparator_def example_baseline_def example_current_def bench_def)

lemma incomplete_lookups:
  "lookup_baseline example_incomplete ''BM_SafetyLevel_Comparison/0_mean''
     = Some (bench ''BM_SafetyLevel_Comparison/0_mean'' 100)"
  "lookup_baseline example_incomplete ''BM_SafetyLevel_Comparison/1_mean''
     = Some (bench ''BM_SafetyLevel_Comparison/1_mean'' 110)"
  "lookup_current example_incomplete ''BM_SafetyLevel_Comparison/0_mean''
     = Some (bench ''BM_SafetyLevel_Comparison/0_mean'' 100)"
  "lookup_current example_incomplete ''BM_SafetyLevel_Comparison/1_mean''
     = Some \<lparr>name = Some ''BM_SafetyLevel_Comparison/1_mean'', cpu_time = None,
          bytes_per_second = None\<rparr>"
  "lookup_baseline example_incomplete ''BM_MakeMove_ShortChain_mean''
     = Some \<lparr>name = Some ''BM_MakeMove_ShortChain_mean'', cpu_time = None,
          bytes_per_second = None\<rparr>"
  "lookup_current example_incomplete ''BM_MakeMove_ShortChain_mean''
     = Some (bench ''BM_MakeMove_ShortChain_mean'' 120)"
  by (simp_all add: example_incomplete_def bench_def)

subsubsection \<open>One comparison, one list\<close>

lemma contributes_choice:
  "contributes st self
     (if P then extend self [] [m1] else if Q then extend self [m2] [] else self) \<longleftrightarrow>
   (st = ''CRITICAL'' \<longleftrightarrow> P) \<and> (st = ''WARNING'' \<longleftrightarrow> \<not> P \<and> Q)"
  by (auto simp add: contributes_def extend_nil)

lemma assess_performance_change_CRITICAL:
  "assess_performance_change change cat = ''CRITICAL'' \<longleftrightarrow>
     change > REGRESSION_THRESHOLDS cat critical"
  by (simp add: assess_performance_change_def Let_def)

lemma assess_performance_change_WARNING:
  "assess_performance_change change cat = ''WARNING'' \<longleftrightarrow>
     \<not> change > REGRESSION_THRESHOLDS cat critical \<and> change > REGRESSION_THRESHOLDS cat warning"
  by (simp add: assess_performance_change_def Let_def)

lemma assess_throughput_change_CRITICAL:
  "assess_throughput_change change = ''CRITICAL'' \<longleftrightarrow>
     change < - REGRESSION_THRESHOLDS throughput critical"
  by (simp add: assess_throughput_change_def)

lemma assess_throughput_change_WARNING:
  "assess_throughput_change change = ''WARNING'' \<longleftrightarrow>
     \<not> change < - REGRESSION_THRESHOLDS throughput critical \<and>
     change < - REGRESSION_THRESHOLDS throughput warning"
  by (simp add: assess_throughput_change_def)

lemma core_body_contributes:
  assumes "lookup_baseline self n = Some b" and "lookup_current self n = Some c"
  shows "\<exists>r self'. core_body n (results, self) = Inr (dict_set results n r, self') \<and>
           contributes (core_status r) self self'"
proof -
  obtain ch where ch: "calculate_percentage_change (get_default (cpu_time b) 0)
      (get_default (cpu_time c) 0) = Inr ch"
    by (simp add: calc_Inr)
  have "contributes (assess_performance_change ch core_latency) self
     (if ch > REGRESSION_THRESHOLDS core_latency critical
      then extend self []
             [core_message ''CRITICAL'' n ch (get_default (cpu_time b) 0) (get_default (cpu_time c) 0)]
      else if ch > REGRESSION_THRESHOLDS core_latency warning
      then extend self
             [core_message ''WARNING'' n ch (get_default (cpu_time b) 0) (get_default (cpu_time c) 0)] []
      else self)"
    by (simp only: contributes_choice assess_performance_change_CRITICAL
        assess_performance_change_WARNING)
  with core_body_found [OF assms ch, of results] show ?thesis
    by (metis core_result.select_convs(4))
qed

lemma memory_body_contributes:
  assumes "lookup_baseline self n = Some b" and "lookup_current self n = Some c"
  shows "\<exists>r self'. memory_body n (results, self) = Inr (dict_set results n r, self') \<and>
           contributes (memory_status r) self self'"
proof -
  obtain ch where ch: "calculate_percentage_change (get_default (bytes_per_second b) 0)
      (get_default (bytes_per_second c) 0) = Inr ch"
    by (simp add: calc_Inr)
  have "contributes (assess_throughput_change ch) self
     (if ch < - REGRESSION_THRESHOLDS throughput critical
      then extend self [] [memory_message ''CRITICAL'' n ch]
      else if ch < - REGRESSION_THRESHOLDS throughput warning
      then extend self [memory_message ''WARNING'' n ch] []
      else self)"
    by (simp only: contributes_choice assess_throughput_change_CRITICAL
        assess_throughput_change_WARNING)
  with memory_body_found [OF assms ch, of results] show ?thesis
    by (metis memory_result.select_convs(4))
qed

lemma safety_contributes:
  assumes "compare_safety_overhead self = Inr (Some r, self')"
  shows "contributes (safety_status r) self self'"
proof -
  have present: "\<not> (lookup_baseline self ''BM_SafetyLevel_Comparison/0_mean'' = None \<or>
     lookup_baseline self ''BM_SafetyLevel_Comparison/1_mean'' = None \<or>
     lookup_current self ''BM_SafetyLevel_Comparison/0_mean'' = None \<or>
     lookup_current self ''BM_SafetyLevel_Comparison/1_mean'' = None)"
  proof
    assume "lookup_baseline self ''BM_SafetyLevel_Comparison/0_mean'' = None \<or>
     lookup_baseline self ''BM_SafetyLevel_Comparison/1_mean'' = None \<or>
     lookup_current self ''BM_SafetyLevel_Comparison/0_mean'' = None \<or>
     lookup_current self ''BM_SafetyLevel_Comparison/1_mean'' = None"
    from safety_missing [OF this] assms show False by simp
  qed
  then obtain vo lb vc lc where f:
    "lookup_baseline self ''BM_SafetyLevel_Comparison/0_mean'' = Some vo"
    "lookup_baseline self ''BM_SafetyLevel_Comparison/1_mean'' = Some lb"
    "lookup_current self ''BM_SafetyLevel_Comparison/0_mean'' = Some vc"
    "lookup_current self ''BM_SafetyLevel_Comparison/1_mean'' = Some lc"
    by auto
  have "\<not> (cpu_time vo = None \<or> cpu_time lb = None \<or> cpu_time vc = None \<or> cpu_time lc = None)"
  proof
    assume "cpu_time vo = None \<or> cpu_time lb = None \<or> cpu_time vc = None \<or> cpu_time lc = None"
    from safety_key_error [OF f this] assms show False by simp
  qed
  then obtain t0 t1 t2 t3 where t: "cpu_time vo = Some t0" "cpu_time lb = Some t1"
    "cpu_time vc = Some t2" "cpu_time lc = Some t3" by auto
  obtain bo co where o: "calculate_percentage_change t0 t1 = Inr bo"
    "calculate_percentage_change t2 t3 = Inr co"
    by (simp add: calc_Inr)
  have r: "r = \<lparr>baseline_overhead_percent = bo * 100,
                current_overhead_percent = co * 100,
                overhead_change_percent = (co - bo) * 100,
                safety_status = assess_performance_change (co - bo) safety_overhead\<rparr>"
    and s: "self' = (if co - bo > REGRESSION_THRESHOLDS safety_overhead critical
          then extend self [] [safety_message ''CRITICAL'' (co - bo) bo co]
          else if co - bo > REGRESSION_THRESHOLDS safety_overhead warning
          then extend self [safety_message ''WARNING'' (co - bo) bo co] []
          else self)"
    using assms safety_found [OF f t o] by simp_all
  show ?thesis
    unfolding s r
    by (simp add: contributes_choice assess_performance_change_CRITICAL
        assess_performance_change_WARNING del: REGRESSION_THRESHOLDS.simps)
qed

lemma contributes_exclusive:
  assumes "contributes st self self'"
  shows "warnings self' = warnings self \<or> critical_issues self' = critical_issues self"
proof (cases "st = ''WARNING''")
  case True
  then have "length (drop (length (critical_issues self)) (critical_issues self')) = 0"
    using assms by (simp add: contributes_def Let_def)
  moreover have "critical_issues self' = critical_issues self @
      drop (length (critical_issues self)) (critical_issues self')"
    using assms by (metis contributes_def extend_fields(6))
  ultimately show ?thesis by simp
next
  case False
  then have "length (drop (length (warnings self)) (warnings self')) = 0"
    using assms by (simp add: contributes_def Let_def)
  moreover have "warnings self' = warnings self @
      drop (length (warnings self)) (warnings self')"
    using assms by (metis contributes_def extend_fields(5))
  ultimately show ?thesis by simp
qed

lemma example_safety:
  "compare_safety_overhead example_comparator =
     Inr (Some \<lparr>baseline_overhead_percent = 10,
                current_overhead_percent = 18,
                overhead_change_percent = 8,
                safety_status = ''WARNING''\<rparr>,
          extend example_comparator [safety_message ''WARNING'' (8 / 100) (10 / 100) (18 / 100)] [])"
  using safety_found [of example_comparator,
      OF example_lookups(7) example_lookups(8) example_lookups(9) example_lookups(10),
      of 100 110 100 118 "10 / 100" "18 / 100"]
  by (simp add: bench_def calc_Inr assess_performance_change_def)

subsubsection \<open>The report when the overhead comparison raises\<close>

lemma generate_report_Inl:
  assumes "\<And>ws cs. compare_safety_overhead (extend self ws cs) = Inl e"
  shows "generate_report self = Inl e"
proof -
  obtain results ws cs where "compare_core_performance self = Inr (results, extend self ws cs)"
    using compare_core_effect by blast
  then show ?thesis
    using assms by (simp add: generate_report_def report_lines_def)
qed

subsubsection \<open>Loading\<close>

lemma print_fields [simp]:
  "stdout (print s w) = stdout w @ [s]"
  "stderr (print s w) = stderr w"
  "written (print s w) = written w"
  "files (print s w) = files w"
  by (simp_all add: print_def)

lemma load_json_cases:
  "files w f = NotFound \<Longrightarrow>
     load_json f w = (Inl (SystemExit 1), print (''Error: File '' @ f @ '' not found'') w)"
  "files w f = InvalidJSON \<Longrightarrow>
     load_json f w = (Inl (SystemExit 1), print (''Error: Invalid JSON in '' @ f) w)"
  "files w f = JSON (Object data) \<Longrightarrow> load_json f w = (Inr data, w)"
  "files w f = JSON (Array bs) \<Longrightarrow> load_json f w = (Inr \<lparr>benchmarks = bs\<rparr>, w)"
  by (simp_all add: load_json_def)

lemma load_json_loaded:
  "files w f = JSON d \<Longrightarrow> \<exists>data. load_json f w = (Inr data, w)"
  by (cases d) (simp_all add: load_json_def)

lemma example_files:
  "files example_world ''baseline.json'' = JSON (Object \<lparr>benchmarks = example_baseline\<rparr>)"
  "files example_world ''missing.json'' = NotFound"
  "files example_world ''broken.json'' = InvalidJSON"
  "files example_world ''old.json'' = JSON (Array (benchmarks (baseline_data example_incomplete)))"
  "files example_world ''new.json'' = JSON (Array (benchmarks (current_data example_incomplete)))"
  by (simp_all add: example_world_def)

lemma example_incomplete_report: "generate_report example_incomplete = Inl (KeyError ''cpu_time'')"
proof (rule generate_report_Inl)
  fix ws cs
  show "compare_safety_overhead (extend example_incomplete ws cs) = Inl (KeyError ''cpu_time'')"
    using safety_key_error [of "extend example_incomplete ws cs"
        "bench ''BM_SafetyLevel_Comparison/0_mean'' 100"
        "bench ''BM_SafetyLevel_Comparison/1_mean'' 110"
        "bench ''BM_SafetyLevel_Comparison/0_mean'' 100"
        "\<lparr>name = Some ''BM_SafetyLevel_Comparison/1_mean'', cpu_time = None,
           bytes_per_second = None\<rparr>"]
      incomplete_lookups
    by simp
qed

lemma example_incomplete_init:
  "init ''old.json'' ''new.json'' example_world =
     (Inr example_incomplete, example_world)"
  by (simp add: init_def load_json_cases example_files example_incomplete_def)

subsubsection \<open>The structure of the report\<close>





subsubsection \<open>Evaluating the examples\<close>









lemma example_lists_fields [simp]:
  "benchmarks (baseline_data (example_lists ws cs)) = []"
  "benchmarks (current_data (example_lists ws cs)) = []"
  "warnings (example_lists ws cs) = ws"
  "critical_issues (example_lists ws cs) = cs"
  "baseline_file (example_lists ws cs) = ''base.json''"
  "current_file (example_lists ws cs) = ''cur.json''"
  by (simp_all add: example_lists_def)


subsubsection \<open>Labels of report lines\<close>




















subsubsection \<open>Missing metrics\<close>






subsubsection \<open>The report of the example\<close>



subsection \<open>The claims\<close>

text \<open>
  C1: the exit code is 2 when the list of critical issues is not empty, whatever the
  warnings; otherwise 1 when the list of warnings is not empty; otherwise 0. A critical
  issue forces 2 also when there are warnings.
\<close>

theorem get_exit_code_precedence:
  "(critical_issues self \<noteq> [] \<longrightarrow> get_exit_code self = 2) \<and>
   (critical_issues self = [] \<and> warnings self \<noteq> [] \<longrightarrow> get_exit_code self = 1) \<and>
   (critical_issues self = [] \<and> warnings self = [] \<longrightarrow> get_exit_code self = 0) \<and>
   get_exit_code (self\<lparr>warnings := ws, critical_issues := c # cs\<rparr>) = 2"
  by (simp add: get_exit_code_def)

theorem get_exit_code_precedence_witness:
  "get_exit_code (example_lists [''w''] [''c'']) = 2 \<and>
   get_exit_code (example_lists [''w''] []) = 1 \<and>
   get_exit_code (example_lists [] []) = 0"
  using get_exit_code_precedence [of "example_lists [''w''] [''c'']"]
    get_exit_code_precedence [of "example_lists [''w''] []"]
    get_exit_code_precedence [of "example_lists [] []"]
  by (simp add: example_lists_def)

text \<open>
  C2: the latency classification tests the critical threshold first and the warning
  threshold second, both with a strict comparison. A change equal to the warning
  threshold is \<open>OK\<close>; a change above it, up to and including the critical threshold,
  is \<open>WARNING\<close>; a change above the critical threshold is \<open>CRITICAL\<close>. This holds
  for each of the four categories of the table.
\<close>

theorem assess_performance_change_boundaries:
  "assess_performance_change (REGRESSION_THRESHOLDS cat warning) cat = ''OK'' \<and>
   assess_performance_change (REGRESSION_THRESHOLDS cat critical) cat = ''WARNING'' \<and>
   (REGRESSION_THRESHOLDS cat critical < change \<longrightarrow>
      assess_performance_change change cat = ''CRITICAL'') \<and>
   (REGRESSION_THRESHOLDS cat warning < change \<and> change \<le> REGRESSION_THRESHOLDS cat critical \<longrightarrow>
      assess_performance_change change cat = ''WARNING'') \<and>
   (change \<le> REGRESSION_THRESHOLDS cat warning \<longrightarrow>
      assess_performance_change change cat = (if change < - (5 / 100) then ''IMPROVEMENT'' else ''OK''))"
  using threshold_order [of cat] threshold_warning_pos [of cat]
  by (auto simp add: assess_performance_change_def Let_def)

theorem assess_performance_change_boundaries_witness:
  "assess_performance_change (10 / 100) core_latency = ''OK'' \<and>
   assess_performance_change (25 / 100) core_latency = ''WARNING'' \<and>
   assess_performance_change (26 / 100) core_latency = ''CRITICAL'' \<and>
   assess_performance_change (11 / 100) core_latency = ''WARNING'' \<and>
   assess_performance_change (9 / 100) core_latency = ''OK''"
  using assess_performance_change_boundaries [of core_latency "26 / 100"]
    assess_performance_change_boundaries [of core_latency "11 / 100"]
    assess_performance_change_boundaries [of core_latency "9 / 100"]
  by simp

text \<open>
  C3: the throughput classification compares the change with the negated thresholds of
  the category \<open>throughput\<close> (0.15 and 0.30): below \<open>- critical\<close> is
  \<open>CRITICAL\<close>, otherwise below \<open>- warning\<close> is \<open>WARNING\<close>, otherwise above
  0.05 is \<open>IMPROVEMENT\<close>, otherwise \<open>OK\<close>. A change of -0.16 is \<open>WARNING\<close> and
  a change of +0.20 is \<open>IMPROVEMENT\<close>.
\<close>

theorem assess_throughput_change_negated:
  "(change < - REGRESSION_THRESHOLDS throughput critical \<longrightarrow>
      assess_throughput_change change = ''CRITICAL'') \<and>
   (- REGRESSION_THRESHOLDS throughput critical \<le> change \<and>
    change < - REGRESSION_THRESHOLDS throughput warning \<longrightarrow>
      assess_throughput_change change = ''WARNING'') \<and>
   (- REGRESSION_THRESHOLDS throughput warning \<le> change \<and> 5 / 100 < change \<longrightarrow>
      assess_throughput_change change = ''IMPROVEMENT'') \<and>
   (- REGRESSION_THRESHOLDS throughput warning \<le> change \<and> change \<le> 5 / 100 \<longrightarrow>
      assess_throughput_change change = ''OK'') \<and>
   REGRESSION_THRESHOLDS throughput warning = 15 / 100 \<and>
   REGRESSION_THRESHOLDS throughput critical = 30 / 100 \<and>
   assess_throughput_change (- (16 / 100)) = ''WARNING'' \<and>
   assess_throughput_change (20 / 100) = ''IMPROVEMENT''"
  by (auto simp add: assess_throughput_change_def)

theorem assess_throughput_change_negated_witness:
  "assess_throughput_change (- (31 / 100)) = ''CRITICAL'' \<and>
   assess_throughput_change (- (30 / 100)) = ''WARNING'' \<and>
   assess_throughput_change (6 / 100) = ''IMPROVEMENT'' \<and>
   assess_throughput_change (- (15 / 100)) = ''OK''"
  using assess_throughput_change_negated [of "- (31 / 100)"]
    assess_throughput_change_negated [of "- (30 / 100)"]
    assess_throughput_change_negated [of "6 / 100"]
    assess_throughput_change_negated [of "- (15 / 100)"]
  by simp







text \<open>
  C7, as the code has it: a file that is not found or does not parse makes
  \<^verbatim>\<open>_load_json\<close> print one line on standard output (not on the error stream) and
  raise \<open>SystemExit(1)\<close>. Nothing catches it, so the invocation ends there: the line is
  its whole output, no report is printed or written, and no comparison has run. This
  holds for the baseline file, and for the current file once the baseline has loaded.
\<close>

theorem load_failure_terminates:
  "(files w (baseline a) = NotFound \<longrightarrow>
      main a w = (Inl (SystemExit 1),
                  print (''Error: File '' @ baseline a @ '' not found'') w)) \<and>
   (files w (baseline a) = InvalidJSON \<longrightarrow>
      main a w = (Inl (SystemExit 1),
                  print (''Error: Invalid JSON in '' @ baseline a) w)) \<and>
   (files w (baseline a) = JSON d \<and> files w (current a) = NotFound \<longrightarrow>
      main a w = (Inl (SystemExit 1),
                  print (''Error: File '' @ current a @ '' not found'') w)) \<and>
   (files w (baseline a) = JSON d \<and> files w (current a) = InvalidJSON \<longrightarrow>
      main a w = (Inl (SystemExit 1),
                  print (''Error: Invalid JSON in '' @ current a) w)) \<and>
   stdout (print s w) = stdout w @ [s] \<and>
   stderr (print s w) = stderr w \<and>
   written (print s w) = written w"
proof (intro conjI impI)
  assume "files w (baseline a) = NotFound"
  then show "main a w = (Inl (SystemExit 1),
                  print (''Error: File '' @ baseline a @ '' not found'') w)"
    by (simp add: main_def init_def load_json_cases)
next
  assume "files w (baseline a) = InvalidJSON"
  then show "main a w = (Inl (SystemExit 1),
                  print (''Error: Invalid JSON in '' @ baseline a) w)"
    by (simp add: main_def init_def load_json_cases)
next
  assume a: "files w (baseline a) = JSON d \<and> files w (current a) = NotFound"
  then obtain data where "load_json (baseline a) w = (Inr data, w)"
    using load_json_loaded by blast
  with a show "main a w = (Inl (SystemExit 1),
                  print (''Error: File '' @ current a @ '' not found'') w)"
    by (simp add: main_def init_def load_json_cases)
next
  assume a: "files w (baseline a) = JSON d \<and> files w (current a) = InvalidJSON"
  then obtain data where "load_json (baseline a) w = (Inr data, w)"
    using load_json_loaded by blast
  with a show "main a w = (Inl (SystemExit 1),
                  print (''Error: Invalid JSON in '' @ current a) w)"
    by (simp add: main_def init_def load_json_cases)
qed simp_all

theorem load_failure_terminates_witness:
  "main (example_args ''missing.json'' ''current.json'') example_world =
     (Inl (SystemExit 1), print ''Error: File missing.json not found'' example_world) \<and>
   main (example_args ''broken.json'' ''current.json'') example_world =
     (Inl (SystemExit 1), print ''Error: Invalid JSON in broken.json'' example_world) \<and>
   main (example_args ''baseline.json'' ''missing.json'') example_world =
     (Inl (SystemExit 1), print ''Error: File missing.json not found'' example_world) \<and>
   main (example_args ''baseline.json'' ''broken.json'') example_world =
     (Inl (SystemExit 1), print ''Error: Invalid JSON in broken.json'' example_world)"
  using load_failure_terminates [of example_world "example_args ''missing.json'' ''current.json''"]
    load_failure_terminates [of example_world "example_args ''broken.json'' ''current.json''"]
    load_failure_terminates [of example_world "example_args ''baseline.json'' ''missing.json''"
      "Object \<lparr>benchmarks = example_baseline\<rparr>"]
    load_failure_terminates [of example_world "example_args ''baseline.json'' ''broken.json''"
      "Object \<lparr>benchmarks = example_baseline\<rparr>"]
  by (simp add: example_args_def example_files)

text \<open>
  C7 as stated fails: the message of a load failure is on standard output and the error
  stream stays empty; and a load failure is not the only condition that ends the
  invocation, since two files that load can still end it with \<open>KeyError\<close>.
\<close>

theorem load_failure_counterexample:
  "load_json ''missing.json'' example_world =
     (Inl (SystemExit 1), print ''Error: File missing.json not found'' example_world) \<and>
   stdout (print ''Error: File missing.json not found'' example_world) =
     [''Error: File missing.json not found''] \<and>
   stderr (print ''Error: File missing.json not found'' example_world) = [] \<and>
   main (example_args ''old.json'' ''new.json'') example_world =
     (Inl (KeyError ''cpu_time''), example_world)"
  by (simp add: load_json_cases example_files main_def example_args_def example_incomplete_init
      example_incomplete_report)
      (simp add: example_world_def)

text \<open>
  C8: one comparison adds a message to at most one of the two lists: one message to
  \<open>warnings\<close> exactly when its status is \<open>WARNING\<close>, one message to
  \<open>critical_issues\<close> exactly when its status is \<open>CRITICAL\<close>, never to both. This
  holds for one pass of the loop of the core comparison, for one pass of the loop of the
  memory comparison, and for the overhead comparison.
\<close>

theorem single_comparison_one_list:
  "(lookup_baseline self n = Some b \<and> lookup_current self n = Some c \<longrightarrow>
      (\<exists>r self'. core_body n (results, self) = Inr (dict_set results n r, self') \<and>
          contributes (core_status r) self self')) \<and>
   (lookup_baseline self m = Some mb \<and> lookup_current self m = Some mc \<longrightarrow>
      (\<exists>r self'. memory_body m (mresults, self) = Inr (dict_set mresults m r, self') \<and>
          contributes (memory_status r) self self')) \<and>
   (compare_safety_overhead self = Inr (Some sr, self1) \<longrightarrow>
      contributes (safety_status sr) self self1) \<and>
   (contributes st self self2 \<longrightarrow>
      warnings self2 = warnings self \<or> critical_issues self2 = critical_issues self)"
  using core_body_contributes [of self n b c results]
    memory_body_contributes [of self m mb mc mresults]
    safety_contributes [of self sr self1]
    contributes_exclusive [of st self self2]
  by blast

theorem single_comparison_one_list_witness:
  "lookup_baseline example_comparator ''BM_MakeMove_ShortChain_mean''
     = Some (bench ''BM_MakeMove_ShortChain_mean'' 100) \<and>
   lookup_current example_comparator ''BM_MakeMove_ShortChain_mean''
     = Some (bench ''BM_MakeMove_ShortChain_mean'' 120) \<and>
   (\<exists>r self'. core_body ''BM_MakeMove_ShortChain_mean'' ([], example_comparator)
        = Inr (dict_set [] ''BM_MakeMove_ShortChain_mean'' r, self') \<and>
      contributes (core_status r) example_comparator self') \<and>
   (\<exists>r self'. memory_body ''BM_MakeMove_MemoryTracking/64_mean'' ([], example_comparator)
        = Inr (dict_set [] ''BM_MakeMove_MemoryTracking/64_mean'' r, self') \<and>
      contributes (memory_status r) example_comparator self') \<and>
   contributes ''WARNING'' example_comparator
     (extend example_comparator [safety_message ''WARNING'' (8 / 100) (10 / 100) (18 / 100)] []) \<and>
   critical_issues
     (extend example_comparator [safety_message ''WARNING'' (8 / 100) (10 / 100) (18 / 100)] [])
     = critical_issues example_comparator"
  using single_comparison_one_list [of example_comparator
      "''BM_MakeMove_ShortChain_mean''" "bench ''BM_MakeMove_ShortChain_mean'' 100"
      "bench ''BM_MakeMove_ShortChain_mean'' 120" "[]"
      "''BM_MakeMove_MemoryTracking/64_mean''"
      "\<lparr>name = Some ''BM_MakeMove_MemoryTracking/64_mean'', cpu_time = Some 50,
         bytes_per_second = Some 1000\<rparr>"
      "\<lparr>name = Some ''BM_MakeMove_MemoryTracking/64_mean'', cpu_time = Some 50,
         bytes_per_second = Some 600\<rparr>" "[]"
      "\<lparr>baseline_overhead_percent = 10, current_overhead_percent = 18,
         overhead_change_percent = 8, safety_status = ''WARNING''\<rparr>"
      "extend example_comparator [safety_message ''WARNING'' (8 / 100) (10 / 100) (18 / 100)] []"]
    example_lookups example_safety
  by simp




text \<open>
  C10: when the four overhead records are found and one of them has no \<open>cpu_time\<close>,
  the overhead comparison raises \<open>KeyError\<close>, and so does the report; it does not
  take the "not available" branch. The core comparison reads the field with a default: a
  baseline record without \<open>cpu_time\<close> counts as 0, the guard on a zero baseline makes the
  change 0, and the status is \<open>OK\<close> with no message. On either side a missing field
  is read as 0 and the pass of the loop returns a result.
\<close>

theorem overhead_key_error_core_default:
  "(lookup_baseline self ''BM_SafetyLevel_Comparison/0_mean'' = Some validate_only \<and>
    lookup_baseline self ''BM_SafetyLevel_Comparison/1_mean'' = Some light_undo_baseline \<and>
    lookup_current self ''BM_SafetyLevel_Comparison/0_mean'' = Some validate_only_current \<and>
    lookup_current self ''BM_SafetyLevel_Comparison/1_mean'' = Some light_undo_current \<and>
    (cpu_time validate_only = None \<or> cpu_time light_undo_baseline = None \<or>
     cpu_time validate_only_current = None \<or> cpu_time light_undo_current = None) \<longrightarrow>
      compare_safety_overhead self = Inl (KeyError ''cpu_time'') \<and>
      generate_report self = Inl (KeyError ''cpu_time'')) \<and>
   (lookup_baseline self n = Some b \<and> lookup_current self n = Some c \<and> cpu_time b = None \<longrightarrow>
      core_body n (results, self) =
        Inr (dict_set results n
               \<lparr>baseline_time = 0,
                current_time = get_default (cpu_time c) 0,
                core_change_percent = 0,
                core_status = ''OK''\<rparr>, self)) \<and>
   (lookup_baseline self n = Some b \<and> lookup_current self n = Some c \<longrightarrow>
      (\<exists>r s. core_body n (results, self) = Inr (dict_set results n r, s) \<and>
         baseline_time r = (case cpu_time b of None \<Rightarrow> 0 | Some t \<Rightarrow> t) \<and>
         current_time r = (case cpu_time c of None \<Rightarrow> 0 | Some t \<Rightarrow> t)))"
proof (intro conjI impI)
  assume a: "lookup_baseline self ''BM_SafetyLevel_Comparison/0_mean'' = Some validate_only \<and>
    lookup_baseline self ''BM_SafetyLevel_Comparison/1_mean'' = Some light_undo_baseline \<and>
    lookup_current self ''BM_SafetyLevel_Comparison/0_mean'' = Some validate_only_current \<and>
    lookup_current self ''BM_SafetyLevel_Comparison/1_mean'' = Some light_undo_current \<and>
    (cpu_time validate_only = None \<or> cpu_time light_undo_baseline = None \<or>
     cpu_time validate_only_current = None \<or> cpu_time light_undo_current = None)"
  then show "compare_safety_overhead self = Inl (KeyError ''cpu_time'')"
    using safety_key_error [of self] by blast
  have "compare_safety_overhead (extend self ws cs) = Inl (KeyError ''cpu_time'')" for ws cs
    using a safety_key_error [of "extend self ws cs"] by simp
  then show "generate_report self = Inl (KeyError ''cpu_time'')"
    by (rule generate_report_Inl)
next
  assume a: "lookup_baseline self n = Some b \<and> lookup_current self n = Some c \<and> cpu_time b = None"
  then have "calculate_percentage_change (get_default (cpu_time b) 0) (get_default (cpu_time c) 0)
      = Inr 0"
    by (simp add: get_default_def calc_Inr)
  with a core_body_found [of self n b c 0 results]
  show "core_body n (results, self) =
        Inr (dict_set results n
               \<lparr>baseline_time = 0,
                current_time = get_default (cpu_time c) 0,
                core_change_percent = 0,
                core_status = ''OK''\<rparr>, self)"
    by (simp add: get_default_def assess_performance_change_def)
next
  assume a: "lookup_baseline self n = Some b \<and> lookup_current self n = Some c"
  obtain ch where ch: "calculate_percentage_change (get_default (cpu_time b) 0)
      (get_default (cpu_time c) 0) = Inr ch"
    by (simp add: calc_Inr)
  let ?r = "\<lparr>baseline_time = get_default (cpu_time b) 0,
              current_time = get_default (cpu_time c) 0,
              core_change_percent = ch * 100,
              core_status = assess_performance_change ch core_latency\<rparr>"
  from a core_body_found [of self n b c ch results] ch
  have "\<exists>s. core_body n (results, self) = Inr (dict_set results n ?r, s)"
    by simp
  moreover have "baseline_time ?r = (case cpu_time b of None \<Rightarrow> 0 | Some t \<Rightarrow> t)"
    "current_time ?r = (case cpu_time c of None \<Rightarrow> 0 | Some t \<Rightarrow> t)"
    by (simp_all add: get_default_def)
  ultimately show "\<exists>r s. core_body n (results, self) = Inr (dict_set results n r, s) \<and>
         baseline_time r = (case cpu_time b of None \<Rightarrow> 0 | Some t \<Rightarrow> t) \<and>
         current_time r = (case cpu_time c of None \<Rightarrow> 0 | Some t \<Rightarrow> t)"
    by blast
qed

theorem overhead_key_error_core_default_witness:
  "compare_safety_overhead example_incomplete = Inl (KeyError ''cpu_time'') \<and>
   generate_report example_incomplete = Inl (KeyError ''cpu_time'') \<and>
   core_body ''BM_MakeMove_ShortChain_mean'' ([], example_incomplete) =
     Inr ([(''BM_MakeMove_ShortChain_mean'',
            \<lparr>baseline_time = 0, current_time = 120, core_change_percent = 0,
             core_status = ''OK''\<rparr>)], example_incomplete)"
  using overhead_key_error_core_default [of example_incomplete
      "bench ''BM_SafetyLevel_Comparison/0_mean'' 100"
      "bench ''BM_SafetyLevel_Comparison/1_mean'' 110"
      "bench ''BM_SafetyLevel_Comparison/0_mean'' 100"
      "\<lparr>name = Some ''BM_SafetyLevel_Comparison/1_mean'', cpu_time = None,
         bytes_per_second = None\<rparr>"
      "''BM_MakeMove_ShortChain_mean''"
      "\<lparr>name = Some ''BM_MakeMove_ShortChain_mean'', cpu_time = None,
         bytes_per_second = None\<rparr>"
      "bench ''BM_MakeMove_ShortChain_mean'' 120" "[]"]
    incomplete_lookups
  by (simp add: bench_def get_default_def)

end
